theory Spec2Isabelle
  imports Complex_Main "HOL-Library.Sublist" "HOL-Library.Word"
begin

section \<open>Python values seen by the client\<close>

text \<open>
  \<^verbatim>\<open>Agent.py\<close> is a thin client: a voice session controller around an SDK object, and four
  HTTP operations whose results are read out of parsed JSON. The embedding keeps the Python
  semantics the functions rely on: what \<^verbatim>\<open>in\<close>, subscripting and iteration do on each kind
  of JSON value, and which of them raise.
\<close>

datatype py_error =
    RequestException
  | JSONDecodeError
  | KeyError string
  | TypeError
  | CouldntDecodeError
  | FileNotFoundError
  | OSError

text \<open>
  The value returned by \<^verbatim>\<open>response.json()\<close>. An object is the list of its members in the
  order of the body; as in \<^verbatim>\<open>json.loads\<close>, the last member with a given name wins and the
  keys iterate in the order of their first occurrence.
\<close>

datatype json =
    JNull
  | JBool bool
  | JNum real
  | JStr string
  | JArr "json list"
  | JObj "(string \<times> json) list"

definition dict_get :: "(string \<times> json) list \<Rightarrow> string \<Rightarrow> json option" where
  "dict_get kvs k = map_of (rev kvs) k"

definition dict_has :: "(string \<times> json) list \<Rightarrow> string \<Rightarrow> bool" where
  "dict_has kvs k = (k \<in> set (map fst kvs))"

definition dict_keys :: "(string \<times> json) list \<Rightarrow> string list" where
  "dict_keys kvs = rev (remdups (rev (map fst kvs)))"

text \<open>\<^verbatim>\<open>k in data\<close> for a string \<open>k\<close>: key membership on a dict, element membership on a
  list, substring test on a string, \<^verbatim>\<open>TypeError\<close> on anything else.\<close>

fun py_contains :: "string \<Rightarrow> json \<Rightarrow> py_error + bool" where
  "py_contains k (JObj kvs) = Inr (dict_has kvs k)"
| "py_contains k (JArr es) = Inr (JStr k \<in> set es)"
| "py_contains k (JStr s) = Inr (sublist k s)"
| "py_contains k JNull = Inl TypeError"
| "py_contains k (JBool b) = Inl TypeError"
| "py_contains k (JNum n) = Inl TypeError"

text \<open>\<^verbatim>\<open>data[k]\<close> for a string \<open>k\<close>: a lookup on a dict (\<^verbatim>\<open>KeyError\<close> when the key is
  missing), \<^verbatim>\<open>TypeError\<close> on every other value.\<close>

fun py_getitem :: "json \<Rightarrow> string \<Rightarrow> py_error + json" where
  "py_getitem (JObj kvs) k =
     (case dict_get kvs k of None \<Rightarrow> Inl (KeyError k) | Some v \<Rightarrow> Inr v)"
| "py_getitem (JArr es) k = Inl TypeError"
| "py_getitem (JStr s) k = Inl TypeError"
| "py_getitem JNull k = Inl TypeError"
| "py_getitem (JBool b) k = Inl TypeError"
| "py_getitem (JNum n) k = Inl TypeError"

text \<open>\<^verbatim>\<open>for x in v\<close>: the elements of a list, the keys of a dict, the characters of a
  string; \<^verbatim>\<open>TypeError\<close> on a value that is not iterable.\<close>

fun py_iter :: "json \<Rightarrow> py_error + json list" where
  "py_iter (JArr es) = Inr es"
| "py_iter (JObj kvs) = Inr (map JStr (dict_keys kvs))"
| "py_iter (JStr s) = Inr (map (\<lambda>c. JStr [c]) s)"
| "py_iter JNull = Inl TypeError"
| "py_iter (JBool b) = Inl TypeError"
| "py_iter (JNum n) = Inl TypeError"

text \<open>The body of a list comprehension \<^verbatim>\<open>[f(x) for x in xs]\<close>: left to right, the first
  exception ends it.\<close>

fun py_map :: "('a \<Rightarrow> py_error + 'b) \<Rightarrow> 'a list \<Rightarrow> py_error + 'b list" where
  "py_map f [] = Inr []"
| "py_map f (x # xs) =
     (case f x of
        Inl e \<Rightarrow> Inl e
      | Inr y \<Rightarrow> (case py_map f xs of Inl e \<Rightarrow> Inl e | Inr ys \<Rightarrow> Inr (y # ys)))"

text \<open>\<^verbatim>\<open>[x[k] for x in v]\<close>, the comprehension both list operations end with.\<close>

definition py_pluck :: "string \<Rightarrow> json \<Rightarrow> py_error + json list" where
  "py_pluck k v =
     (case py_iter v of
        Inl e \<Rightarrow> Inl e
      | Inr xs \<Rightarrow> py_map (\<lambda>x. py_getitem x k) xs)"

subsection \<open>Strings\<close>

text \<open>
  A \<^typ>\<open>string\<close> stands for a Python \<^verbatim>\<open>str\<close> whose code points are below 256, one
  \<^typ>\<open>char\<close> per code point. On that range \<^verbatim>\<open>str.isspace\<close> holds for 9-13, 28-32, 133
  and 160, and \<^verbatim>\<open>str.lower\<close> moves A-Z and the Latin-1 capitals (192-222 without 215) up
  by 32.
\<close>

definition py_isspace :: "char \<Rightarrow> bool" where
  "py_isspace c =
     (let n = (of_char c :: nat)
      in (9 \<le> n \<and> n \<le> 13) \<or> (28 \<le> n \<and> n \<le> 32) \<or> n = 133 \<or> n = 160)"

definition py_strip :: "string \<Rightarrow> string" where
  "py_strip s = rev (dropWhile py_isspace (rev (dropWhile py_isspace s)))"

definition lower_char :: "char \<Rightarrow> char" where
  "lower_char c =
     (let n = (of_char c :: nat)
      in if (65 \<le> n \<and> n \<le> 90) \<or> (192 \<le> n \<and> n \<le> 222 \<and> n \<noteq> 215)
         then char_of (n + 32) else c)"

definition py_lower :: "string \<Rightarrow> string" where
  "py_lower s = map lower_char s"

section \<open>The program state\<close>

text \<open>
  The module global \<^verbatim>\<open>conversation\<close> (\<^verbatim>\<open>None\<close> or the SDK object of the last start) and
  \<^verbatim>\<open>st.session_state.agent_running\<close>, which \<^verbatim>\<open>main\<close> initialises to \<^verbatim>\<open>False\<close> before
  anything reads it. The SDK and the page are outside the repository: the state records the
  calls made on SDK objects and the texts written to the page, in order, and the files
  written to the working directory. Each \<^verbatim>\<open>Conversation(...)\<close> is a new object, numbered
  from \<open>next_handle\<close>. SDK calls are taken to return normally.
\<close>

type_synonym handle = nat
type_synonym bytes = "8 word list"

datatype sdk_call =
    NewConversation handle
  | StartSession handle
  | StopSession handle

record world =
  conversation :: "handle option"
  agent_running :: bool
  sdk_calls :: "sdk_call list"
  next_handle :: handle
  page :: "string list"
  files :: "string \<rightharpoonup> bytes"

definition init_world :: world where
  "init_world =
     \<lparr>conversation = None, agent_running = False, sdk_calls = [], next_handle = 0,
      page = [], files = Map.empty\<rparr>"

definition st_write :: "string \<Rightarrow> world \<Rightarrow> world" where
  "st_write txt w = w\<lparr>page := page w @ [txt]\<rparr>"

section \<open>Voice session controller\<close>

definition start_conversation :: "world \<Rightarrow> world" where
  "start_conversation w =
     (let h = next_handle w
      in w\<lparr>conversation := Some h,
           sdk_calls := sdk_calls w @ [NewConversation h, StartSession h],
           next_handle := Suc h,
           agent_running := True\<rparr>)"

definition stop_conversation :: "world \<Rightarrow> world" where
  "stop_conversation w =
     (case conversation w of
        None \<Rightarrow> w
      | Some h \<Rightarrow>
          st_write ''**Agent has been stopped**''
            (w\<lparr>sdk_calls := sdk_calls w @ [StopSession h], agent_running := False\<rparr>))"

definition handle_user_transcript :: "string \<Rightarrow> world \<Rightarrow> world" where
  "handle_user_transcript transcript w =
     (let w' = st_write (''**User:** '' @ transcript) w
      in if py_lower (py_strip transcript) = ''stop'' then stop_conversation w' else w')"

text \<open>The \<^verbatim>\<open>Start the Agensense\<close> branch of \<^verbatim>\<open>main\<close>; the two booleans are what
  \<^verbatim>\<open>st.button\<close> returns for the start and the stop button.\<close>

definition main_start_service :: "bool \<Rightarrow> bool \<Rightarrow> world \<Rightarrow> world" where
  "main_start_service start_clicked stop_clicked w =
     (if \<not> agent_running w then
        (if start_clicked
         then st_write ''**Agent has been started**'' (start_conversation w)
         else w)
      else
        (let w' = st_write ''**Agent is already running**'' w
         in if stop_clicked then stop_conversation w' else w'))"

text \<open>What the two-state machine of the controller sees of the state.\<close>

definition session_state :: "world \<Rightarrow> handle option \<times> bool" where
  "session_state w = (conversation w, agent_running w)"

text \<open>Two facts that hold of every state the controller can be in: the flag is only set
  while a handle is stored, and the stored handle is an object that was already created.\<close>

definition session_inv :: "world \<Rightarrow> bool" where
  "session_inv w =
     ((agent_running w \<longrightarrow> conversation w \<noteq> None) \<and>
      (case conversation w of None \<Rightarrow> True | Some h \<Rightarrow> h < next_handle w))"

text \<open>Calls into the controller, in the order they happen: the two menu actions and the
  SDK delivering one recognised utterance to \<^verbatim>\<open>handle_user_transcript\<close>.\<close>

datatype event = Start | Stop | Heard string

fun step :: "event \<Rightarrow> world \<Rightarrow> world" where
  "step Start w = start_conversation w"
| "step Stop w = stop_conversation w"
| "step (Heard t) w = handle_user_transcript t w"

definition run :: "event list \<Rightarrow> world \<Rightarrow> world" where
  "run es w = fold step es w"

section \<open>HTTP clients\<close>

text \<open>
  \<^verbatim>\<open>requests.get\<close> and \<^verbatim>\<open>requests.delete\<close> either raise (no response) or return a
  response; \<open>json_body\<close> is what \<^verbatim>\<open>response.json()\<close> returns, \<open>None\<close> when it raises. The
  remote service is a function from the request sent to that outcome.
\<close>

datatype http_method = GET | DELETE

record request =
  verb :: http_method
  url :: string
  headers :: "(string \<times> string) list"
  params :: "(string \<times> string) list"

record response =
  status_code :: int
  content :: bytes
  json_body :: "json option"

datatype http_outcome = ConnectionFailed | Response response

record config =
  API_KEY :: string
  AGENT_ID :: string

text \<open>A service that gives the same response to every request.\<close>

fun answering :: "response \<Rightarrow> request \<Rightarrow> http_outcome" where
  "answering r q = Response r"

definition conversations_url :: string where
  "conversations_url = ''https://api.elevenlabs.io/v1/convai/conversations''"

definition list_request :: "config \<Rightarrow> request" where
  "list_request cfg =
     \<lparr>verb = GET, url = conversations_url,
      headers = [(''xi-api-key'', API_KEY cfg)], params = [(''agent_id'', AGENT_ID cfg)]\<rparr>"

definition get_conversations ::
  "config \<Rightarrow> (request \<Rightarrow> http_outcome) \<Rightarrow> world \<Rightarrow> (py_error + json list) \<times> world" where
  "get_conversations cfg http w =
     (case http (list_request cfg) of
        ConnectionFailed \<Rightarrow> (Inl RequestException, w)
      | Response r \<Rightarrow>
          if status_code r = 200 then
            (case json_body r of
               None \<Rightarrow> (Inl JSONDecodeError, w)
             | Some data \<Rightarrow>
                 (case data of
                    JObj kvs \<Rightarrow>
                      if dict_has kvs ''conversations'' then
                        (case py_getitem data ''conversations'' of
                           Inl e \<Rightarrow> (Inl e, w)
                         | Inr v \<Rightarrow> (py_pluck ''conversation_id'' v, w))
                      else (Inr [], w)
                  | _ \<Rightarrow> (Inr [], w)))
          else (Inr [], w))"

definition audio_request :: "config \<Rightarrow> string \<Rightarrow> request" where
  "audio_request cfg conversation_id =
     \<lparr>verb = GET, url = conversations_url @ ''/'' @ conversation_id @ ''/audio'',
      headers = [(''xi-api-key'', API_KEY cfg)], params = []\<rparr>"

definition audio_file_path :: "string \<Rightarrow> string" where
  "audio_file_path conversation_id = conversation_id @ ''_audio.wav''"

text \<open>
  \<^verbatim>\<open>pydub\<close> and the file system are outside the repository. \<open>from_mp3\<close> is
  \<^verbatim>\<open>AudioSegment.from_mp3\<close> on the bytes received (\<open>None\<close> when it raises).
  \<^verbatim>\<open>audio.export(path, format="wav")\<close> first opens the path for writing and then writes the
  WAV bytes: \<open>open_wb\<close> gives the exception the open raises for a path (\<open>None\<close> when the
  path opens), \<open>export_wav\<close> the bytes written. The decode comes first, as in the source.
\<close>

definition get_audio ::
  "config \<Rightarrow> (request \<Rightarrow> http_outcome) \<Rightarrow> (bytes \<Rightarrow> 'a option) \<Rightarrow> ('a \<Rightarrow> bytes) \<Rightarrow>
   (string \<Rightarrow> py_error option) \<Rightarrow> string \<Rightarrow> world \<Rightarrow> (py_error + string option) \<times> world" where
  "get_audio cfg http from_mp3 export_wav open_wb conversation_id w =
     (case http (audio_request cfg conversation_id) of
        ConnectionFailed \<Rightarrow> (Inl RequestException, w)
      | Response r \<Rightarrow>
          if status_code r = 200 then
            (case from_mp3 (content r) of
               None \<Rightarrow> (Inl CouldntDecodeError, w)
             | Some audio \<Rightarrow>
                 (case open_wb (audio_file_path conversation_id) of
                    Some e \<Rightarrow> (Inl e, w)
                  | None \<Rightarrow>
                      (Inr (Some (audio_file_path conversation_id)),
                       w\<lparr>files :=
                           (files w)(audio_file_path conversation_id \<mapsto> export_wav audio)\<rparr>)))
          else (Inr None, w))"

text \<open>Two stand-ins for running the client: a decoder that accepts every payload but the
  empty one, and an empty working directory, where a path with a \<^verbatim>\<open>/\<close> names a file in a
  directory that does not exist.\<close>

fun nonempty_payload :: "bytes \<Rightarrow> bytes option" where
  "nonempty_payload [] = None"
| "nonempty_payload (b # bs) = Some (b # bs)"

definition empty_dir :: "string \<Rightarrow> py_error option" where
  "empty_dir path = (if CHR ''/'' \<in> set path then Some FileNotFoundError else None)"

definition detail_request :: "http_method \<Rightarrow> config \<Rightarrow> string \<Rightarrow> request" where
  "detail_request m cfg conversation_id =
     \<lparr>verb = m, url = conversations_url @ ''/'' @ conversation_id,
      headers = [(''xi-api-key'', API_KEY cfg)], params = []\<rparr>"

definition delete_conversation ::
  "config \<Rightarrow> (request \<Rightarrow> http_outcome) \<Rightarrow> string \<Rightarrow> world \<Rightarrow> (py_error + string) \<times> world" where
  "delete_conversation cfg http conversation_id w =
     (case http (detail_request DELETE cfg conversation_id) of
        ConnectionFailed \<Rightarrow> (Inl RequestException, w)
      | Response r \<Rightarrow>
          if status_code r = 200 then (Inr ''Conversation deleted successfully.'', w)
          else (Inr ''Failed to delete the conversation.'', w))"

definition get_messages ::
  "config \<Rightarrow> (request \<Rightarrow> http_outcome) \<Rightarrow> string \<Rightarrow> world \<Rightarrow> (py_error + json list) \<times> world" where
  "get_messages cfg http conversation_id w =
     (case http (detail_request GET cfg conversation_id) of
        ConnectionFailed \<Rightarrow> (Inl RequestException, w)
      | Response r \<Rightarrow>
          if status_code r = 200 then
            (case json_body r of
               None \<Rightarrow> (Inl JSONDecodeError, w)
             | Some data \<Rightarrow>
                 (case py_contains ''transcript'' data of
                    Inl e \<Rightarrow> (Inl e, w)
                  | Inr True \<Rightarrow>
                      (case py_getitem data ''transcript'' of
                         Inl e \<Rightarrow> (Inl e, w)
                       | Inr v \<Rightarrow> (py_pluck ''message'' v, w))
                  | Inr False \<Rightarrow> (Inr [JStr ''No messages found in this conversation.''], w)))
          else (Inr [JStr ''Failed to fetch messages.''], w))"

text \<open>A parsed body in which the top-level field \<open>k\<close> is missing: any value that is not
  an object, or an object without that key.\<close>

definition lacks_field :: "string \<Rightarrow> json \<Rightarrow> bool" where
  "lacks_field k d = (case d of JObj kvs \<Rightarrow> \<not> dict_has kvs k | _ \<Rightarrow> True)"

section \<open>Properties\<close>

subsection \<open>Helper lemmas\<close>

lemma dict_get_has: "dict_get kvs k = Some v \<Longrightarrow> dict_has kvs k"
  unfolding dict_get_def dict_has_def
  by (auto dest!: map_of_SomeD intro: rev_image_eqI)

lemma py_map_getitem:
  "list_all2 (\<lambda>m v. dict_get m k = Some v) ms vs \<Longrightarrow>
   py_map (\<lambda>x. py_getitem x k) (map JObj ms) = Inr vs"
  by (induction rule: list_all2_induct) simp_all

lemma py_pluck_objects:
  "list_all2 (\<lambda>m v. dict_get m k = Some v) ms vs \<Longrightarrow>
   py_pluck k (JArr (map JObj ms)) = Inr vs"
  by (simp add: py_pluck_def py_map_getitem)

lemma inv_init: "session_inv init_world"
  by (simp add: session_inv_def init_world_def)

lemma inv_start: "session_inv w \<Longrightarrow> session_inv (start_conversation w)"
  by (auto simp: session_inv_def start_conversation_def Let_def split: option.splits)

lemma inv_stop: "session_inv w \<Longrightarrow> session_inv (stop_conversation w)"
  by (auto simp: session_inv_def stop_conversation_def st_write_def split: option.splits)

lemma inv_write: "session_inv w \<Longrightarrow> session_inv (st_write t w)"
  by (auto simp: session_inv_def st_write_def split: option.splits)

lemma inv_heard: "session_inv w \<Longrightarrow> session_inv (handle_user_transcript t w)"
  by (simp add: handle_user_transcript_def Let_def inv_stop inv_write)

lemma inv_step: "session_inv w \<Longrightarrow> session_inv (step e w)"
  by (cases e) (simp_all add: inv_start inv_stop inv_heard)

lemma inv_fold: "session_inv w \<Longrightarrow> session_inv (fold step es w)"
  by (induction es arbitrary: w) (simp_all add: inv_step)

lemma inv_run: "session_inv (run es init_world)"
  by (simp add: run_def inv_fold inv_init)

lemma conv_fold_no_start:
  "Start \<notin> set es \<Longrightarrow> conversation w = None \<Longrightarrow>
   conversation (fold step es w) = None \<and> agent_running (fold step es w) = agent_running w
   \<and> sdk_calls (fold step es w) = sdk_calls w"
proof (induction es arbitrary: w)
  case Nil then show ?case by simp
next
  case (Cons e es)
  then show ?case
    by (cases e) (auto simp: stop_conversation_def handle_user_transcript_def st_write_def Let_def)
qed

lemma conv_step_kept: "conversation w \<noteq> None \<Longrightarrow> conversation (step e w) \<noteq> None"
  by (cases e) (auto simp: start_conversation_def stop_conversation_def
      handle_user_transcript_def st_write_def Let_def)

lemma conv_fold_kept: "conversation w \<noteq> None \<Longrightarrow> conversation (fold step es w) \<noteq> None"
  by (induction es arbitrary: w) (simp_all add: conv_step_kept del: not_None_eq)

lemma conv_fold_start: "Start \<in> set es \<Longrightarrow> conversation (fold step es w) \<noteq> None"
proof (induction es arbitrary: w)
  case Nil then show ?case by simp
next
  case (Cons e es)
  show ?case
  proof (cases "e = Start")
    case True
    have "conversation (step e w) \<noteq> None"
      using True by (simp add: start_conversation_def Let_def)
    then show ?thesis by (simp add: conv_fold_kept del: not_None_eq)
  next
    case False
    with Cons.prems have "Start \<in> set es" by simp
    then show ?thesis by (simp add: Cons.IH del: not_None_eq)
  qed
qed

subsection \<open>Voice session controller\<close>

text \<open>
  \<^verbatim>\<open>start_conversation\<close> has no check of the running flag. Called on the state reached by
  one start from the initial state, where the flag is set, it returns normally, stores a
  different handle and makes further SDK calls: the session that was active is not left as
  it was.
\<close>

theorem start_while_running_counterexample:
  "agent_running (start_conversation init_world) \<and>
   conversation (start_conversation (start_conversation init_world))
     \<noteq> conversation (start_conversation init_world) \<and>
   sdk_calls (start_conversation (start_conversation init_world))
     \<noteq> sdk_calls (start_conversation init_world)"
  by (simp add: start_conversation_def init_world_def Let_def)

text \<open>
  C1, as the code has it. While the flag is set, \<^verbatim>\<open>start_conversation\<close> does not fail: it
  creates a new SDK object, stores it in place of the earlier handle, starts a session on it
  and leaves the flag set; the earlier session gets no \<^verbatim>\<open>stop_session\<close>. The guard is in
  the menu: with the flag set, the start branch of \<^verbatim>\<open>main\<close> does not call
  \<^verbatim>\<open>start_conversation\<close>; it writes that the agent is already running and, unless the stop
  button is pressed, leaves handle, flag and SDK calls as they were.
\<close>

theorem start_unguarded:
  assumes "session_inv w" and "agent_running w"
  shows "conversation (start_conversation w) = Some (next_handle w) \<and>
         conversation (start_conversation w) \<noteq> conversation w \<and>
         sdk_calls (start_conversation w) =
           sdk_calls w @ [NewConversation (next_handle w), StartSession (next_handle w)] \<and>
         agent_running (start_conversation w) \<and>
         main_start_service start_clicked False w = st_write ''**Agent is already running**'' w \<and>
         session_state (main_start_service start_clicked False w) = session_state w \<and>
         sdk_calls (main_start_service start_clicked False w) = sdk_calls w"
  using assms
  by (auto simp: start_conversation_def Let_def session_inv_def main_start_service_def
      st_write_def session_state_def split: option.splits)

theorem start_unguarded_witness:
  "session_inv (start_conversation init_world) \<and>
   agent_running (start_conversation init_world) \<and>
   conversation (start_conversation init_world) = Some 0 \<and>
   conversation (start_conversation (start_conversation init_world)) = Some 1 \<and>
   sdk_calls (main_start_service True False (start_conversation init_world))
     = sdk_calls (start_conversation init_world)"
proof -
  have i: "session_inv (start_conversation init_world)"
    by (simp add: inv_start inv_init)
  have r: "agent_running (start_conversation init_world)"
    by (simp add: start_conversation_def Let_def)
  have c: "conversation (start_conversation init_world) = Some 0"
    by (simp add: start_conversation_def init_world_def Let_def)
  have n: "next_handle (start_conversation init_world) = 1"
    by (simp add: start_conversation_def init_world_def Let_def)
  note t = start_unguarded [OF i r, of True]
  from t have "conversation (start_conversation (start_conversation init_world))
      = Some (next_handle (start_conversation init_world))"
    by blast
  with n have h: "conversation (start_conversation (start_conversation init_world)) = Some 1"
    by simp
  from t have m: "sdk_calls (main_start_service True False (start_conversation init_world))
      = sdk_calls (start_conversation init_world)"
    by blast
  show ?thesis
    using i r c h m by blast
qed

text \<open>
  C2. On a state of the controller, an utterance that equals \<^verbatim>\<open>stop\<close> after
  \<^verbatim>\<open>strip()\<close> and \<^verbatim>\<open>lower()\<close> makes \<^verbatim>\<open>handle_user_transcript\<close> call
  \<^verbatim>\<open>stop_conversation\<close> before it returns, and the flag is then cleared; any other
  utterance is only written to the page: no stop, no SDK call, handle and flag unchanged.
\<close>

theorem spoken_stop:
  assumes "session_inv w"
  shows "(py_lower (py_strip t) = ''stop'' \<longrightarrow>
            handle_user_transcript t w = stop_conversation (st_write (''**User:** '' @ t) w) \<and>
            \<not> agent_running (handle_user_transcript t w)) \<and>
         (py_lower (py_strip t) \<noteq> ''stop'' \<longrightarrow>
            handle_user_transcript t w = st_write (''**User:** '' @ t) w \<and>
            session_state (handle_user_transcript t w) = session_state w \<and>
            sdk_calls (handle_user_transcript t w) = sdk_calls w)"
  using assms
  by (auto simp: handle_user_transcript_def Let_def session_inv_def stop_conversation_def
      st_write_def session_state_def split: option.splits)

theorem spoken_stop_witness:
  "session_inv (start_conversation init_world) \<and>
   agent_running (start_conversation init_world) \<and>
   py_lower (py_strip ''  Stop  '') = ''stop'' \<and>
   \<not> agent_running (handle_user_transcript ''  Stop  '' (start_conversation init_world)) \<and>
   py_lower (py_strip ''stop it'') \<noteq> ''stop'' \<and>
   sdk_calls (handle_user_transcript ''stop it'' (start_conversation init_world))
     = sdk_calls (start_conversation init_world)"
proof -
  have i: "session_inv (start_conversation init_world)"
    by (simp add: inv_start inv_init)
  have r: "agent_running (start_conversation init_world)"
    by (simp add: start_conversation_def Let_def)
  have a: "py_lower (py_strip ''  Stop  '') = ''stop''" by code_simp
  have b: "py_lower (py_strip ''stop it'') \<noteq> ''stop''" by code_simp
  show ?thesis
    using i r a b spoken_stop [OF i, of "''  Stop  ''"] spoken_stop [OF i, of "''stop it''"]
    by blast
qed

text \<open>
  After a start and a stop the flag is cleared but the handle is still stored, so a further
  \<^verbatim>\<open>stop_conversation\<close> is not a no-op: it calls \<^verbatim>\<open>stop_session\<close> again and writes to the
  page.
\<close>

theorem stop_idle_counterexample:
  "\<not> agent_running (stop_conversation (start_conversation init_world)) \<and>
   stop_conversation (stop_conversation (start_conversation init_world))
     \<noteq> stop_conversation (start_conversation init_world)"
proof -
  let ?w = "stop_conversation (start_conversation init_world)"
  have "sdk_calls (stop_conversation ?w) \<noteq> sdk_calls ?w"
    by (simp add: stop_conversation_def start_conversation_def init_world_def st_write_def Let_def)
  then have "stop_conversation ?w \<noteq> ?w" by auto
  moreover have "\<not> agent_running ?w"
    by (simp add: stop_conversation_def start_conversation_def init_world_def st_write_def Let_def)
  ultimately show ?thesis by simp
qed

text \<open>
  C6, as the code has it. With the flag cleared, \<^verbatim>\<open>stop_conversation\<close> leaves handle and
  flag as they were, so the state stays Idle, and on handle and flag a second stop changes
  nothing the first has not done. It leaves the whole program state unchanged exactly when no
  handle is stored: with a handle \<open>h\<close> stored, whatever the flag, it calls
  \<^verbatim>\<open>stop_session\<close> on \<open>h\<close> once more and writes the stopped message to the page.
\<close>

theorem stop_idle_state:
  "(\<not> agent_running w \<longrightarrow> session_state (stop_conversation w) = session_state w) \<and>
   session_state (stop_conversation (stop_conversation w)) = session_state (stop_conversation w) \<and>
   (stop_conversation w = w \<longleftrightarrow> conversation w = None) \<and>
   (conversation w = Some h \<longrightarrow>
      sdk_calls (stop_conversation w) = sdk_calls w @ [StopSession h] \<and>
      page (stop_conversation w) = page w @ [''**Agent has been stopped**''])"
proof -
  have a: "\<not> agent_running w \<longrightarrow> session_state (stop_conversation w) = session_state w"
    by (auto simp: stop_conversation_def st_write_def session_state_def split: option.splits)
  have b: "session_state (stop_conversation (stop_conversation w))
             = session_state (stop_conversation w)"
    by (auto simp: stop_conversation_def st_write_def session_state_def split: option.splits)
  have c: "conversation w = None \<Longrightarrow> stop_conversation w = w"
    by (simp add: stop_conversation_def)
  have d: "sdk_calls (stop_conversation w) = sdk_calls w @ [StopSession k] \<and>
           page (stop_conversation w) = page w @ [''**Agent has been stopped**'']"
    if "conversation w = Some k" for k
    using that by (simp add: stop_conversation_def st_write_def)
  have e: "conversation w = None" if "stop_conversation w = w"
  proof (cases "conversation w")
    case None
    then show ?thesis .
  next
    case (Some k)
    from d [OF Some] have "sdk_calls (stop_conversation w) \<noteq> sdk_calls w" by simp
    with that show ?thesis by simp
  qed
  from a b c d e show ?thesis by blast
qed

theorem stop_idle_state_witness:
  "\<not> agent_running (stop_conversation (start_conversation init_world)) \<and>
   session_state (stop_conversation (stop_conversation (start_conversation init_world)))
     = session_state (stop_conversation (start_conversation init_world)) \<and>
   conversation init_world = None \<and> stop_conversation init_world = init_world \<and>
   conversation (stop_conversation (start_conversation init_world)) = Some 0 \<and>
   stop_conversation (stop_conversation (start_conversation init_world))
     \<noteq> stop_conversation (start_conversation init_world) \<and>
   sdk_calls (stop_conversation (stop_conversation (start_conversation init_world)))
     = sdk_calls (stop_conversation (start_conversation init_world)) @ [StopSession 0] \<and>
   page (stop_conversation (stop_conversation (start_conversation init_world)))
     = page (stop_conversation (start_conversation init_world)) @ [''**Agent has been stopped**'']"
proof -
  let ?w = "stop_conversation (start_conversation init_world)"
  have a: "\<not> agent_running ?w"
    by (simp add: stop_conversation_def start_conversation_def init_world_def st_write_def Let_def)
  have b: "conversation init_world = None" by (simp add: init_world_def)
  have c: "conversation ?w = Some 0"
    by (simp add: stop_conversation_def start_conversation_def init_world_def st_write_def Let_def)
  from c have c': "conversation ?w \<noteq> None" by simp
  note t = stop_idle_state [of ?w 0]
  note u = stop_idle_state [of init_world 0]
  from t a have d: "session_state (stop_conversation ?w) = session_state ?w"
    by (elim conjE) simp
  from t c' have e: "stop_conversation ?w \<noteq> ?w"
    by (elim conjE) simp
  from t c have f: "sdk_calls (stop_conversation ?w) = sdk_calls ?w @ [StopSession 0] \<and>
      page (stop_conversation ?w) = page ?w @ [''**Agent has been stopped**'']"
    by (elim conjE) simp
  from u b have g: "stop_conversation init_world = init_world"
    by (elim conjE) simp
  show ?thesis
    using a b c d e f g by simp
qed

text \<open>
  C10. From the initial state, through any sequence of starts, stops and utterances: as
  long as there has been no start, no handle is stored and \<^verbatim>\<open>stop_conversation\<close> changes
  nothing at all; once there has been a start, a handle is stored whatever followed, and
  \<^verbatim>\<open>stop_conversation\<close> keeps it, calls \<^verbatim>\<open>stop_session\<close> on it once more and clears the
  flag, also when the flag was already cleared.
\<close>

theorem handle_retained:
  "(Start \<notin> set es \<longrightarrow>
      conversation (run es init_world) = None \<and>
      stop_conversation (run es init_world) = run es init_world) \<and>
   (Start \<in> set es \<longrightarrow>
      (\<exists>h. conversation (run es init_world) = Some h \<and>
           conversation (stop_conversation (run es init_world)) = Some h \<and>
           sdk_calls (stop_conversation (run es init_world))
             = sdk_calls (run es init_world) @ [StopSession h] \<and>
           \<not> agent_running (stop_conversation (run es init_world))))"
proof -
  have "Start \<notin> set es \<longrightarrow>
           conversation (run es init_world) = None \<and>
           stop_conversation (run es init_world) = run es init_world"
    using conv_fold_no_start [of es init_world]
    by (simp add: run_def init_world_def stop_conversation_def)
  moreover have "Start \<in> set es \<longrightarrow>
           (\<exists>h. conversation (run es init_world) = Some h \<and>
                conversation (stop_conversation (run es init_world)) = Some h \<and>
                sdk_calls (stop_conversation (run es init_world))
                  = sdk_calls (run es init_world) @ [StopSession h] \<and>
                \<not> agent_running (stop_conversation (run es init_world)))"
    using conv_fold_start [of es init_world]
    by (auto simp: run_def stop_conversation_def st_write_def)
  ultimately show ?thesis by blast
qed

theorem handle_retained_witness:
  "Start \<notin> set [Stop, Heard ''stop''] \<and>
   stop_conversation (run [Stop, Heard ''stop''] init_world) = run [Stop, Heard ''stop''] init_world \<and>
   Start \<in> set [Start, Stop] \<and>
   \<not> agent_running (run [Start, Stop] init_world) \<and>
   sdk_calls (stop_conversation (run [Start, Stop] init_world))
     = sdk_calls (run [Start, Stop] init_world) @ [StopSession 0]"
proof -
  have a: "Start \<notin> set [Stop, Heard ''stop'']" by simp
  have b: "Start \<in> set [Start, Stop]" by simp
  have c: "conversation (run [Start, Stop] init_world) = Some 0"
    by (simp add: run_def start_conversation_def stop_conversation_def init_world_def
        st_write_def Let_def)
  have d: "\<not> agent_running (run [Start, Stop] init_world)"
    by (simp add: run_def start_conversation_def stop_conversation_def init_world_def
        st_write_def Let_def)
  show ?thesis
    using a b c d handle_retained [of "[Stop, Heard ''stop'']"] handle_retained [of "[Start, Stop]"]
    by auto
qed

subsection \<open>Conversation registry\<close>

text \<open>
  A 200 body whose \<^verbatim>\<open>conversations\<close> array holds an object without
  \<^verbatim>\<open>conversation_id\<close>: the comprehension raises \<^verbatim>\<open>KeyError\<close>, no empty list is
  returned.
\<close>

theorem list_entry_without_id_counterexample:
  "fst (get_conversations \<lparr>API_KEY = ''k'', AGENT_ID = ''a''\<rparr>
         (answering \<lparr>status_code = 200, content = [],
                         json_body = Some (JObj [(''conversations'', JArr [JObj []])])\<rparr>)
         init_world)
   = Inl (KeyError ''conversation_id'')"
  by (simp add: get_conversations_def dict_has_def dict_get_def py_pluck_def)

text \<open>
  C3, as the code has it. \<^verbatim>\<open>get_conversations\<close> returns the empty list, and raises
  nothing, for every response whose status is not 200 and for every 200 response whose parsed
  body lacks the top-level \<^verbatim>\<open>conversations\<close> field (it is not an object, or an object
  without that key).
\<close>

theorem get_conversations_fail_soft:
  assumes "http (list_request cfg) = Response r"
    and "status_code r \<noteq> 200 \<or> (\<exists>d. json_body r = Some d \<and> lacks_field ''conversations'' d)"
  shows "get_conversations cfg http w = (Inr [], w)"
proof (cases "status_code r = 200")
  case False
  then show ?thesis
    using assms(1) by (simp add: get_conversations_def)
next
  case True
  with assms(2) obtain d where d: "json_body r = Some d" "lacks_field ''conversations'' d"
    by blast
  then show ?thesis
    using assms(1) True by (cases d) (simp_all add: get_conversations_def lacks_field_def)
qed

theorem get_conversations_fail_soft_witness:
  "get_conversations \<lparr>API_KEY = ''k'', AGENT_ID = ''a''\<rparr>
     (answering \<lparr>status_code = 404, content = [], json_body = None\<rparr>) init_world
     = (Inr [], init_world) \<and>
   lacks_field ''conversations'' (JObj [(''detail'', JStr ''x'')]) \<and>
   get_conversations \<lparr>API_KEY = ''k'', AGENT_ID = ''a''\<rparr>
     (answering \<lparr>status_code = 200, content = [],
                     json_body = Some (JObj [(''detail'', JStr ''x'')])\<rparr>) init_world
     = (Inr [], init_world)"
proof -
  have l: "lacks_field ''conversations'' (JObj [(''detail'', JStr ''x'')])"
    by (simp add: lacks_field_def dict_has_def)
  have a: "get_conversations \<lparr>API_KEY = ''k'', AGENT_ID = ''a''\<rparr>
     (answering \<lparr>status_code = 404, content = [], json_body = None\<rparr>) init_world
     = (Inr [], init_world)"
    by (rule get_conversations_fail_soft
        [where r = "\<lparr>status_code = 404, content = [], json_body = None\<rparr>"]) simp_all
  have b: "get_conversations \<lparr>API_KEY = ''k'', AGENT_ID = ''a''\<rparr>
     (answering \<lparr>status_code = 200, content = [],
                     json_body = Some (JObj [(''detail'', JStr ''x'')])\<rparr>) init_world
     = (Inr [], init_world)"
    by (rule get_conversations_fail_soft
        [where r = "\<lparr>status_code = 200, content = [],
                     json_body = Some (JObj [(''detail'', JStr ''x'')])\<rparr>"]) (simp_all add: l)
  show ?thesis using l a b by blast
qed

text \<open>
  C7. For a 200 response whose body is an object with a \<^verbatim>\<open>conversations\<close> array of
  objects that each carry \<^verbatim>\<open>conversation_id\<close>, \<^verbatim>\<open>get_conversations\<close> returns exactly
  those values, in the order of the body.
\<close>

theorem get_conversations_ids:
  assumes "http (list_request cfg) = Response r"
    and "status_code r = 200"
    and "json_body r = Some (JObj kvs)"
    and "dict_get kvs ''conversations'' = Some (JArr (map JObj cs))"
    and "list_all2 (\<lambda>c v. dict_get c ''conversation_id'' = Some v) cs ids"
  shows "get_conversations cfg http w = (Inr ids, w)"
  using assms
  by (simp add: get_conversations_def dict_get_has py_pluck_objects)

theorem get_conversations_ids_witness:
  "get_conversations \<lparr>API_KEY = ''k'', AGENT_ID = ''a''\<rparr>
     (answering \<lparr>status_code = 200, content = [],
             json_body = Some (JObj [(''conversations'',
               JArr [JObj [(''conversation_id'', JStr ''a1'')],
                     JObj [(''conversation_id'', JStr ''b2'')]])])\<rparr>) init_world
     = (Inr [JStr ''a1'', JStr ''b2''], init_world)"
  by (rule get_conversations_ids
        [where r = "\<lparr>status_code = 200, content = [],
             json_body = Some (JObj [(''conversations'',
               JArr [JObj [(''conversation_id'', JStr ''a1'')],
                     JObj [(''conversation_id'', JStr ''b2'')]])])\<rparr>"
           and kvs = "[(''conversations'',
               JArr [JObj [(''conversation_id'', JStr ''a1'')],
                     JObj [(''conversation_id'', JStr ''b2'')]])]"
           and cs = "[[(''conversation_id'', JStr ''a1'')], [(''conversation_id'', JStr ''b2'')]]"])
     (simp_all add: dict_get_def)

subsection \<open>Conversation detail and administration\<close>

text \<open>
  A 200 body in which the \<^verbatim>\<open>transcript\<close> field is present and holds an object without
  \<^verbatim>\<open>message\<close>: \<^verbatim>\<open>get_messages\<close> raises \<^verbatim>\<open>KeyError\<close>.
\<close>

theorem transcript_entry_without_message_counterexample:
  "fst (get_messages \<lparr>API_KEY = ''k'', AGENT_ID = ''a''\<rparr>
         (answering \<lparr>status_code = 200, content = [],
                         json_body = Some (JObj [(''transcript'', JArr [JObj []])])\<rparr>)
         ''c1'' init_world)
   = Inl (KeyError ''message'')"
  by (simp add: get_messages_def dict_has_def dict_get_def py_pluck_def)

text \<open>
  C4, as the code has it. For every response: with a status other than 200,
  \<^verbatim>\<open>get_messages\<close> returns the one-element list with the fetch-failure text; with status
  200 and a body that is an object without \<^verbatim>\<open>transcript\<close>, the one-element list with the
  no-messages text, which is a different text; with status 200 and a body that is an object
  whose \<^verbatim>\<open>transcript\<close> is an array of objects that each carry \<^verbatim>\<open>message\<close>, those
  values in order. None of the three raises.
\<close>

theorem get_messages_cases:
  assumes "http (detail_request GET cfg conversation_id) = Response r"
  shows "(status_code r \<noteq> 200 \<longrightarrow>
            get_messages cfg http conversation_id w = (Inr [JStr ''Failed to fetch messages.''], w)) \<and>
         (status_code r = 200 \<and> json_body r = Some (JObj kvs) \<and> \<not> dict_has kvs ''transcript'' \<longrightarrow>
            get_messages cfg http conversation_id w
              = (Inr [JStr ''No messages found in this conversation.''], w)) \<and>
         (status_code r = 200 \<and> json_body r = Some (JObj kvs) \<and>
          dict_get kvs ''transcript'' = Some (JArr (map JObj ms)) \<and>
          list_all2 (\<lambda>m v. dict_get m ''message'' = Some v) ms texts \<longrightarrow>
            get_messages cfg http conversation_id w = (Inr texts, w)) \<and>
         [JStr ''No messages found in this conversation.''] \<noteq> [JStr ''Failed to fetch messages.'']"
  using assms
  by (auto simp: get_messages_def dict_get_has py_pluck_objects)

theorem get_messages_cases_witness:
  "get_messages \<lparr>API_KEY = ''k'', AGENT_ID = ''a''\<rparr>
     (answering \<lparr>status_code = 500, content = [], json_body = None\<rparr>) ''c1'' init_world
     = (Inr [JStr ''Failed to fetch messages.''], init_world) \<and>
   get_messages \<lparr>API_KEY = ''k'', AGENT_ID = ''a''\<rparr>
     (answering \<lparr>status_code = 200, content = [], json_body = Some (JObj [])\<rparr>)
     ''c1'' init_world
     = (Inr [JStr ''No messages found in this conversation.''], init_world) \<and>
   get_messages \<lparr>API_KEY = ''k'', AGENT_ID = ''a''\<rparr>
     (answering \<lparr>status_code = 200, content = [],
             json_body = Some (JObj [(''transcript'',
               JArr [JObj [(''message'', JStr ''hi'')], JObj [(''message'', JStr ''bye'')]])])\<rparr>)
     ''c1'' init_world
     = (Inr [JStr ''hi'', JStr ''bye''], init_world)"
proof -
  let ?cfg = "\<lparr>API_KEY = ''k'', AGENT_ID = ''a''\<rparr>"
  let ?r1 = "\<lparr>status_code = 500, content = [], json_body = None\<rparr>"
  let ?r2 = "\<lparr>status_code = 200, content = [], json_body = Some (JObj [])\<rparr>"
  let ?kvs = "[(''transcript'',
               JArr [JObj [(''message'', JStr ''hi'')], JObj [(''message'', JStr ''bye'')]])]"
  let ?r3 = "\<lparr>status_code = 200, content = [], json_body = Some (JObj ?kvs)\<rparr>"
  have a: "get_messages ?cfg (answering ?r1) ''c1'' init_world
      = (Inr [JStr ''Failed to fetch messages.''], init_world)"
    using get_messages_cases [where http = "answering ?r1" and r = ?r1 and cfg = ?cfg
        and conversation_id = "''c1''" and w = init_world]
    by simp
  have b: "get_messages ?cfg (answering ?r2) ''c1'' init_world
      = (Inr [JStr ''No messages found in this conversation.''], init_world)"
    using get_messages_cases [where http = "answering ?r2" and r = ?r2 and cfg = ?cfg
        and conversation_id = "''c1''" and w = init_world and kvs = "[]"]
    by (simp add: dict_has_def)
  have c: "get_messages ?cfg (answering ?r3) ''c1'' init_world
      = (Inr [JStr ''hi'', JStr ''bye''], init_world)"
    using get_messages_cases [where http = "answering ?r3" and r = ?r3 and cfg = ?cfg
        and conversation_id = "''c1''" and w = init_world and kvs = ?kvs
        and ms = "[[(''message'', JStr ''hi'')], [(''message'', JStr ''bye'')]]"
        and texts = "[JStr ''hi'', JStr ''bye'']"]
    by (simp add: dict_get_def dict_has_def)
  show ?thesis using a b c by blast
qed

text \<open>
  A 200 body that is not an object: \<^verbatim>\<open>get_conversations\<close> tests
  \<^verbatim>\<open>isinstance(data, dict)\<close> first and returns the empty list, \<^verbatim>\<open>get_messages\<close> has no
  such test and \<^verbatim>\<open>"transcript" in data\<close> raises on \<^verbatim>\<open>null\<close>.
\<close>

lemma null_body_list_and_transcript:
  "fst (get_conversations \<lparr>API_KEY = ''k'', AGENT_ID = ''a''\<rparr>
         (answering \<lparr>status_code = 200, content = [], json_body = Some JNull\<rparr>) init_world)
     = Inr [] \<and>
   fst (get_messages \<lparr>API_KEY = ''k'', AGENT_ID = ''a''\<rparr>
         (answering \<lparr>status_code = 200, content = [], json_body = Some JNull\<rparr>)
         ''c1'' init_world)
     = Inl TypeError"
  by (simp add: get_conversations_def get_messages_def)

text \<open>
  C5. For every conversation id and every response to the delete request,
  \<^verbatim>\<open>delete_conversation\<close> returns a string and raises nothing: the success text when the
  status is 200, the failure text for any other status.
\<close>

theorem delete_conversation_outcome:
  assumes "http (detail_request DELETE cfg conversation_id) = Response r"
  shows "delete_conversation cfg http conversation_id w =
           (Inr (if status_code r = 200 then ''Conversation deleted successfully.''
                 else ''Failed to delete the conversation.''), w)"
  using assms by (simp add: delete_conversation_def)

theorem delete_conversation_outcome_witness:
  "delete_conversation \<lparr>API_KEY = ''k'', AGENT_ID = ''a''\<rparr>
     (answering \<lparr>status_code = 200, content = [], json_body = None\<rparr>) ''c1'' init_world
     = (Inr ''Conversation deleted successfully.'', init_world) \<and>
   delete_conversation \<lparr>API_KEY = ''k'', AGENT_ID = ''a''\<rparr>
     (answering \<lparr>status_code = 403, content = [], json_body = None\<rparr>) ''c1'' init_world
     = (Inr ''Failed to delete the conversation.'', init_world)"
  using delete_conversation_outcome
      [where http = "answering \<lparr>status_code = 200, content = [], json_body = None\<rparr>"
         and cfg = "\<lparr>API_KEY = ''k'', AGENT_ID = ''a''\<rparr>" and conversation_id = "''c1''"
         and r = "\<lparr>status_code = 200, content = [], json_body = None\<rparr>" and w = init_world]
    delete_conversation_outcome
      [where http = "answering \<lparr>status_code = 403, content = [], json_body = None\<rparr>"
         and cfg = "\<lparr>API_KEY = ''k'', AGENT_ID = ''a''\<rparr>" and conversation_id = "''c1''"
         and r = "\<lparr>status_code = 403, content = [], json_body = None\<rparr>" and w = init_world]
  by simp

text \<open>
  In an empty working directory, the id \<^verbatim>\<open>a/b\<close> and a 200 response whose payload decodes:
  \<^verbatim>\<open>audio.export\<close> cannot open \<^verbatim>\<open>a/b_audio.wav\<close>, and \<^verbatim>\<open>get_audio\<close> raises instead of
  returning a path.
\<close>

theorem audio_unwritable_path_counterexample:
  "get_audio \<lparr>API_KEY = ''k'', AGENT_ID = ''a''\<rparr>
     (answering \<lparr>status_code = 200, content = [1, 2], json_body = None\<rparr>)
     nonempty_payload rev empty_dir ''a/b'' init_world
   = (Inl FileNotFoundError, init_world)"
  by (simp add: get_audio_def audio_file_path_def empty_dir_def)

text \<open>
  C8, as the code has it. For every conversation id and every response to the audio request:
  with a status other than 200, \<^verbatim>\<open>get_audio\<close> returns \<^verbatim>\<open>None\<close> and writes nothing; with
  status 200, a payload that decodes and a path that opens, it writes the WAV export of the
  decoded audio to the file named by the id followed by \<^verbatim>\<open>_audio.wav\<close>, a name that
  depends on the id alone, and returns that path; with status 200 and a payload that does
  not decode, or a path that does not open, it raises and writes nothing.
\<close>

theorem get_audio_result:
  assumes "http (audio_request cfg conversation_id) = Response r"
  shows "(status_code r \<noteq> 200 \<longrightarrow>
            get_audio cfg http decode encode opens conversation_id w = (Inr None, w)) \<and>
         (status_code r = 200 \<and> decode (content r) = Some a \<and>
          opens (conversation_id @ ''_audio.wav'') = None \<longrightarrow>
            get_audio cfg http decode encode opens conversation_id w
              = (Inr (Some (conversation_id @ ''_audio.wav'')),
                 w\<lparr>files := (files w)(conversation_id @ ''_audio.wav'' \<mapsto> encode a)\<rparr>)) \<and>
         (status_code r = 200 \<and> decode (content r) = None \<longrightarrow>
            get_audio cfg http decode encode opens conversation_id w
              = (Inl CouldntDecodeError, w)) \<and>
         (status_code r = 200 \<and> decode (content r) = Some a \<and>
          opens (conversation_id @ ''_audio.wav'') = Some e \<longrightarrow>
            get_audio cfg http decode encode opens conversation_id w = (Inl e, w))"
  using assms by (simp add: get_audio_def audio_file_path_def)

theorem get_audio_result_witness:
  "get_audio \<lparr>API_KEY = ''k'', AGENT_ID = ''a''\<rparr>
     (answering \<lparr>status_code = 404, content = [], json_body = None\<rparr>)
     nonempty_payload rev empty_dir ''c1'' init_world = (Inr None, init_world) \<and>
   fst (get_audio \<lparr>API_KEY = ''k'', AGENT_ID = ''a''\<rparr>
     (answering \<lparr>status_code = 200, content = [1, 2], json_body = None\<rparr>)
     nonempty_payload rev empty_dir ''c1'' init_world)
     = Inr (Some ''c1_audio.wav'') \<and>
   files (snd (get_audio \<lparr>API_KEY = ''k'', AGENT_ID = ''a''\<rparr>
     (answering \<lparr>status_code = 200, content = [1, 2], json_body = None\<rparr>)
     nonempty_payload rev empty_dir ''c1'' init_world)) ''c1_audio.wav''
     = Some [2, 1] \<and>
   get_audio \<lparr>API_KEY = ''k'', AGENT_ID = ''a''\<rparr>
     (answering \<lparr>status_code = 200, content = [], json_body = None\<rparr>)
     nonempty_payload rev empty_dir ''c1'' init_world = (Inl CouldntDecodeError, init_world) \<and>
   get_audio \<lparr>API_KEY = ''k'', AGENT_ID = ''a''\<rparr>
     (answering \<lparr>status_code = 200, content = [1, 2], json_body = None\<rparr>)
     nonempty_payload rev empty_dir ''d/c1'' init_world = (Inl FileNotFoundError, init_world)"
proof -
  let ?cfg = "\<lparr>API_KEY = ''k'', AGENT_ID = ''a''\<rparr>"
  let ?r1 = "\<lparr>status_code = 404, content = [], json_body = None\<rparr>"
  let ?r2 = "\<lparr>status_code = 200, content = [1, 2], json_body = None\<rparr>"
  let ?r3 = "\<lparr>status_code = 200, content = [], json_body = None\<rparr>"
  have a: "get_audio ?cfg (answering ?r1) nonempty_payload rev empty_dir ''c1'' init_world
      = (Inr None, init_world)"
    using get_audio_result [where http = "answering ?r1" and cfg = ?cfg
        and conversation_id = "''c1''" and r = ?r1 and decode = nonempty_payload
        and encode = rev and opens = empty_dir and w = init_world]
    by simp
  have b: "get_audio ?cfg (answering ?r2) nonempty_payload rev empty_dir ''c1'' init_world
      = (Inr (Some ''c1_audio.wav''),
         init_world\<lparr>files := (files init_world)(''c1_audio.wav'' \<mapsto> rev [1, 2])\<rparr>)"
    using get_audio_result [where http = "answering ?r2" and cfg = ?cfg
        and conversation_id = "''c1''" and r = ?r2 and decode = nonempty_payload
        and a = "[1, 2]" and encode = rev and opens = empty_dir and w = init_world]
    by (simp add: empty_dir_def)
  have c: "get_audio ?cfg (answering ?r3) nonempty_payload rev empty_dir ''c1'' init_world
      = (Inl CouldntDecodeError, init_world)"
    using get_audio_result [where http = "answering ?r3" and cfg = ?cfg
        and conversation_id = "''c1''" and r = ?r3 and decode = nonempty_payload
        and encode = rev and opens = empty_dir and w = init_world]
    by simp
  have d: "get_audio ?cfg (answering ?r2) nonempty_payload rev empty_dir ''d/c1'' init_world
      = (Inl FileNotFoundError, init_world)"
    using get_audio_result [where http = "answering ?r2" and cfg = ?cfg
        and conversation_id = "''d/c1''" and r = ?r2 and decode = nonempty_payload
        and a = "[1, 2]" and e = FileNotFoundError and encode = rev and opens = empty_dir
        and w = init_world]
    by (simp add: empty_dir_def)
  show ?thesis using a b c d by simp
qed

text \<open>
  C9. Whatever the remote service answers (no response, any status, any body), listing,
  fetching a transcript, fetching audio and deleting leave the stored handle, the running
  flag and the calls made on SDK objects exactly as they were.
\<close>

theorem clients_leave_session_alone:
  "session_state (snd (get_conversations cfg http w)) = session_state w \<and>
   sdk_calls (snd (get_conversations cfg http w)) = sdk_calls w \<and>
   session_state (snd (get_messages cfg http conversation_id w)) = session_state w \<and>
   sdk_calls (snd (get_messages cfg http conversation_id w)) = sdk_calls w \<and>
   session_state (snd (get_audio cfg http decode encode opens conversation_id w)) = session_state w \<and>
   sdk_calls (snd (get_audio cfg http decode encode opens conversation_id w)) = sdk_calls w \<and>
   session_state (snd (delete_conversation cfg http conversation_id w)) = session_state w \<and>
   sdk_calls (snd (delete_conversation cfg http conversation_id w)) = sdk_calls w"
proof -
  have a: "snd (get_conversations cfg http w) = w"
    by (simp add: get_conversations_def
        split: http_outcome.splits option.splits json.splits sum.splits)
  have b: "snd (get_messages cfg http conversation_id w) = w"
    by (simp add: get_messages_def
        split: http_outcome.splits option.splits sum.splits bool.splits)
  have c: "snd (delete_conversation cfg http conversation_id w) = w"
    by (simp add: delete_conversation_def split: http_outcome.splits)
  have d: "session_state (snd (get_audio cfg http decode encode opens conversation_id w))
             = session_state w \<and>
           sdk_calls (snd (get_audio cfg http decode encode opens conversation_id w)) = sdk_calls w"
    by (simp add: get_audio_def session_state_def split: http_outcome.splits option.splits)
  show ?thesis using a b c d by simp
qed

end
